theory Spec2Isabelle
  imports Main "HOL-Library.AList"
begin

section \<open>The entity search modal (searchFactory, UserSearch, GroupSearch)\<close>

text \<open>
  The source is a React module. \<open>searchFactory config\<close> builds the component \<open>Search\<close>,
  whose local state is the pair \<open>open\<close>, \<open>staged\<close> (two \<open>useState\<close> cells) and whose
  handlers \<open>handleAdd\<close>, \<open>handleAddButtonClick\<close>, \<open>handleOpenClick\<close> and \<open>handleClose\<close>
  update that state and call the callbacks \<open>onAddItems\<close>, \<open>onOpen\<close>, \<open>onClose\<close> the
  embedding page passed in.

  The embedding: a handler is a function from the state of the render it closes over
  to the next state and the list of callbacks it invoked, in program order. Each
  handler runs to completion on the state of the latest render (one user event per
  render), so \<open>setStaged (prev => [...prev, item])\<close> appends to the very list
  \<open>isAdded\<close> has just inspected.
\<close>

subsection \<open>Data\<close>

text \<open>
  A result or favourite entry. \<open>runSearch\<close> builds entries with the fields
  \<open>identifier\<close>, \<open>name\<close>, \<open>detail\<close>, \<open>group\<close> and, for users, \<open>userId\<close>.
\<close>

record item =
  "identifier" :: string
  name :: string
  detail :: "string option"
  group :: bool
  userId :: "int option"

text \<open>
  \<open>onAddItems\<close> receives one item in single mode (\<open>onAddItems(item)\<close>) and the
  staged array otherwise (\<open>onAddItems(staged)\<close>).
\<close>

datatype add_arg = One item | Many "item list"

datatype callback = OnAddItems add_arg | OnOpen | OnClose

text \<open>The handlers \<open>Search\<close> wires into its element tree.\<close>

datatype handler = HandleAdd item | HandleAddButtonClick | HandleOpenClick | HandleClose

text \<open>
  A clickable element as the component renders it: its \<open>disabled\<close> attribute and
  its \<open>onClick\<close> handler.
\<close>

record button =
  btn_disabled :: bool
  btn_onClick :: handler

text \<open>The argument object \<open>{disabled, onClick: handleOpenClick}\<close> of \<open>triggerFactory\<close>.\<close>

record trigger_args =
  ta_disabled :: bool
  ta_onClick :: handler

text \<open>
  The props of \<open>Search\<close> that its logic reads (\<open>favorites\<close> is only rendered). The
  three callbacks are the embedding page's; their invocations are what a handler
  returns. \<open>triggerFactory\<close> is \<open>None\<close> for the default \<open>null\<close>.
\<close>

record props =
  disabled :: bool
  existing :: "string list"
  single :: bool
  triggerFactory :: "(trigger_args \<Rightarrow> button) option"

text \<open>\<open>useState(false)\<close> and \<open>useState([])\<close>.\<close>

record search_state =
  "open" :: bool
  staged :: "item list"

definition initial_state :: search_state where
  "initial_state = \<lparr>open = False, staged = []\<rparr>"

subsection \<open>The handlers of Search\<close>

text \<open>
  \<^verbatim>\<open>existing.includes(identifier) || staged.some(x => x.identifier === identifier)\<close>
\<close>

definition isAdded :: "props \<Rightarrow> search_state \<Rightarrow> item \<Rightarrow> bool" where
  "isAdded p s it =
     (identifier it \<in> set (existing p)
      \<or> list_ex (\<lambda>x. identifier x = identifier it) (staged s))"

definition handleAdd :: "props \<Rightarrow> item \<Rightarrow> search_state \<Rightarrow> search_state \<times> callback list" where
  "handleAdd p it s =
     (if single p then (s\<lparr>open := False\<rparr>, [OnAddItems (One it)])
      else if \<not> isAdded p s it then (s\<lparr>staged := staged s @ [it]\<rparr>, [])
      else (s, []))"

definition handleAddButtonClick :: "search_state \<Rightarrow> search_state \<times> callback list" where
  "handleAddButtonClick s = (s\<lparr>staged := [], open := False\<rparr>, [OnAddItems (Many (staged s))])"

definition handleOpenClick :: "props \<Rightarrow> search_state \<Rightarrow> search_state \<times> callback list" where
  "handleOpenClick p s = (if disabled p then (s, []) else (s\<lparr>open := True\<rparr>, [OnOpen]))"

definition handleClose :: "search_state \<Rightarrow> search_state \<times> callback list" where
  "handleClose s = (s\<lparr>staged := [], open := False\<rparr>, [OnClose])"

fun run_handler :: "props \<Rightarrow> handler \<Rightarrow> search_state \<Rightarrow> search_state \<times> callback list" where
  "run_handler p (HandleAdd it) s = handleAdd p it s"
| "run_handler p HandleAddButtonClick s = handleAddButtonClick s"
| "run_handler p HandleOpenClick s = handleOpenClick p s"
| "run_handler p HandleClose s = handleClose s"

text \<open>
  One user event after another, each on the props of the render it happens in (the
  embedding page may pass different props from one render to the next).
\<close>

fun run_session :: "(props \<times> handler) list \<Rightarrow> search_state \<Rightarrow> search_state" where
  "run_session [] s = s"
| "run_session ((p, h) # es) s = run_session es (fst (run_handler p h s))"

subsection \<open>The elements Search renders\<close>

text \<open>
  A click on a button whose \<open>disabled\<close> attribute is set does not reach its
  \<open>onClick\<close> handler.
\<close>

definition click :: "props \<Rightarrow> button \<Rightarrow> search_state \<Rightarrow> search_state \<times> callback list" where
  "click p b s = (if btn_disabled b then (s, []) else run_handler p (btn_onClick b) s)"

text \<open>
  \<^verbatim>\<open>triggerFactory ? triggerFactory({disabled, onClick: handleOpenClick})
                 : <Button disabled={disabled} onClick={handleOpenClick} />\<close>
\<close>

definition trigger :: "props \<Rightarrow> button" where
  "trigger p =
     (case triggerFactory p of
        Some f \<Rightarrow> f \<lparr>ta_disabled = disabled p, ta_onClick = HandleOpenClick\<rparr>
      | None \<Rightarrow> \<lparr>btn_disabled = disabled p, btn_onClick = HandleOpenClick\<rparr>)"

text \<open>
  \<^verbatim>\<open>{!single && <Button onClick={handleAddButtonClick} disabled={!staged.length} primary>}\<close>
\<close>

definition confirm_button :: "props \<Rightarrow> search_state \<Rightarrow> button option" where
  "confirm_button p s =
     (if \<not> single p
      then Some \<lparr>btn_disabled = (length (staged s) = 0), btn_onClick = HandleAddButtonClick\<rparr>
      else None)"

definition click_confirm :: "props \<Rightarrow> search_state \<Rightarrow> search_state \<times> callback list" where
  "click_confirm p s = (case confirm_button p s of None \<Rightarrow> (s, []) | Some b \<Rightarrow> click p b s)"

definition click_trigger :: "props \<Rightarrow> search_state \<Rightarrow> search_state \<times> callback list" where
  "click_trigger p s = click p (trigger p) s"

subsection \<open>JavaScript values and plain objects\<close>

text \<open>
  Form values are strings and booleans; the other primitives are kept so that
  truthiness is the language's. A number is an integer or \<open>NaN\<close>: every other
  double is truthy, as a non-zero integer is.
\<close>

datatype jsval = JUndefined | JNull | JBool bool | JNum int | JNaN | JStr string

fun truthy :: "jsval \<Rightarrow> bool" where
  "truthy JUndefined = False"
| "truthy JNull = False"
| "truthy (JBool b) = b"
| "truthy (JNum n) = (n \<noteq> 0)"
| "truthy JNaN = False"
| "truthy (JStr s) = (s \<noteq> [])"

text \<open>
  A plain object: its own properties in insertion order. A well-formed object has
  each key once (\<open>distinct (map fst obj)\<close>).
\<close>

type_synonym obj = "(string \<times> jsval) list"

text \<open>\<open>obj.key\<close>: \<open>undefined\<close> for a missing property.\<close>

definition get_prop :: "obj \<Rightarrow> string \<Rightarrow> jsval" where
  "get_prop obj k = (case map_of obj k of Some v \<Rightarrow> v | None \<Rightarrow> JUndefined)"

definition Object_entries :: "obj \<Rightarrow> (string \<times> jsval) list" where
  "Object_entries obj = obj"

text \<open>lodash's \<open>_.fromPairs\<close>: \<open>result[pair[0]] = pair[1]\<close> for each pair in turn.\<close>

definition fromPairs :: "(string \<times> jsval) list \<Rightarrow> obj" where
  "fromPairs pairs = foldl (\<lambda>result pair. AList.update (fst pair) (snd pair) result) [] pairs"

subsection \<open>Running a search\<close>

text \<open>What \<open>SearchContent\<close> keeps in its \<open>result\<close> state: \<open>null\<close> or the data to show.\<close>

record search_result =
  total :: int
  results :: "item list"

text \<open>The rows of the server's reply after \<open>camelizeKeys\<close>, as \<open>runSearch\<close> destructures them.\<close>

record user_row =
  user_identifier :: string
  user_id :: int
  user_fullName :: string
  user_email :: string
  user_affiliation :: "string option"

record user_data =
  users_total :: int
  users :: "user_row list"

record group_row =
  group_identifier :: string
  group_name :: string
  group_providerTitle :: "string option"

record group_data =
  groups_total :: int
  groups :: "group_row list"

text \<open>
  \<^verbatim>\<open>detail: affiliation ? `${email} (${affiliation})` : email\<close>; a missing or empty
  affiliation is falsy.
\<close>

definition user_item :: "user_row \<Rightarrow> item" where
  "user_item u =
     \<lparr>identifier = user_identifier u,
      name = user_fullName u,
      detail = Some (case user_affiliation u of
                       Some a \<Rightarrow> if a \<noteq> [] then user_email u @ '' ('' @ a @ '')'' else user_email u
                     | None \<Rightarrow> user_email u),
      group = False,
      userId = Some (user_id u)\<rparr>"

text \<open>\<^verbatim>\<open>detail: providerTitle || null\<close>\<close>

definition group_item :: "group_row \<Rightarrow> item" where
  "group_item g =
     \<lparr>identifier = group_identifier g,
      name = group_name g,
      detail = (case group_providerTitle g of
                  Some t \<Rightarrow> if t \<noteq> [] then Some t else None
                | None \<Rightarrow> None),
      group = True,
      userId = None\<rparr>"

text \<open>
  What a run of \<open>runSearch\<close> does to the outside, in program order: calls of
  \<open>setResult\<close> and the GET request with the object handed to the URL builder.
\<close>

datatype endpoint = UserSearchURL | GroupSearchURL

datatype effect = SetResult "search_result option" | HttpGet endpoint obj

text \<open>
  The value the \<open>async\<close> function resolves to: \<open>None\<close> for \<open>undefined\<close>, the
  value of \<open>handleSubmitError\<close> otherwise.
\<close>

record 'r search_run =
  effects :: "effect list"
  returned :: "'r option"

text \<open>The local \<open>values\<close> of the two \<open>runSearch\<close> functions.\<close>

definition group_search_values :: "obj \<Rightarrow> obj" where
  "group_search_values data = fromPairs (filter (\<lambda>(k, val). truthy val) (Object_entries data))"

definition user_search_values :: "obj \<Rightarrow> obj" where
  "user_search_values data =
     AList.update ''favorites_first'' (JBool True)
       (fromPairs (filter (\<lambda>(k, val). truthy val) (Object_entries data)))"

text \<open>
  \<open>runSearch\<close> of \<open>InnerUserSearch\<close> and of \<open>GroupSearch\<close>. \<open>indicoAxios.get\<close> is the
  parameter \<open>get\<close>: \<open>Inl error\<close> when the request throws, \<open>Inr\<close> the reply's data
  otherwise. \<open>handleSubmitError\<close> is imported from \<open>indico/react/forms\<close> and is a
  parameter as well.
\<close>

definition runSearch_user ::
  "('e \<Rightarrow> 'r) \<Rightarrow> (obj \<Rightarrow> 'e + user_data) \<Rightarrow> obj \<Rightarrow> 'r search_run" where
  "runSearch_user handleSubmitError get data =
     (let values = user_search_values data in
      case get values of
        Inl error \<Rightarrow>
          \<lparr>effects = [SetResult None, HttpGet UserSearchURL values],
           returned = Some (handleSubmitError error)\<rparr>
      | Inr resultData \<Rightarrow>
          \<lparr>effects = [SetResult None, HttpGet UserSearchURL values,
                      SetResult (Some \<lparr>total = users_total resultData,
                                       results = map user_item (users resultData)\<rparr>)],
           returned = None\<rparr>)"

definition runSearch_group ::
  "('e \<Rightarrow> 'r) \<Rightarrow> (obj \<Rightarrow> 'e + group_data) \<Rightarrow> obj \<Rightarrow> 'r search_run" where
  "runSearch_group handleSubmitError get data =
     (let values = group_search_values data in
      case get values of
        Inl error \<Rightarrow>
          \<lparr>effects = [SetResult None, HttpGet GroupSearchURL values],
           returned = Some (handleSubmitError error)\<rparr>
      | Inr resultData \<Rightarrow>
          \<lparr>effects = [SetResult None, HttpGet GroupSearchURL values,
                      SetResult (Some \<lparr>total = groups_total resultData,
                                       results = map group_item (groups resultData)\<rparr>)],
           returned = None\<rparr>)"

text \<open>The \<open>result\<close> state of \<open>SearchContent\<close> after the effects of a run.\<close>

fun apply_effect :: "search_result option \<Rightarrow> effect \<Rightarrow> search_result option" where
  "apply_effect r (SetResult r') = r'"
| "apply_effect r (HttpGet u q) = r"

definition result_after :: "search_result option \<Rightarrow> effect list \<Rightarrow> search_result option" where
  "result_after r es = foldl apply_effect r es"

text \<open>\<^verbatim>\<open>{result !== null && <SearchResults ... />}\<close>\<close>

definition shows_results :: "search_result option \<Rightarrow> bool" where
  "shows_results result = (result \<noteq> None)"

text \<open>The queries a run sent, and its calls of \<open>setResult\<close>.\<close>

fun sent_queries :: "effect list \<Rightarrow> (endpoint \<times> obj) list" where
  "sent_queries [] = []"
| "sent_queries (HttpGet u q # es) = (u, q) # sent_queries es"
| "sent_queries (SetResult r # es) = sent_queries es"

fun setResult_calls :: "effect list \<Rightarrow> search_result option list" where
  "setResult_calls [] = []"
| "setResult_calls (SetResult r # es) = r # setResult_calls es"
| "setResult_calls (HttpGet u q # es) = setResult_calls es"

subsection \<open>Validation of the user search form\<close>

text \<open>
  \<open>validateForm\<close> of \<open>InnerUserSearch\<close>. \<open>FORM_ERROR\<close> is the key constant imported
  from final-form, a parameter here; \<open>None\<close> is the \<open>undefined\<close> the function
  returns when it falls through.
\<close>

definition validateForm :: "string \<Rightarrow> obj \<Rightarrow> obj option" where
  "validateForm FORM_ERROR values =
     (if \<not> truthy (get_prop values ''first_name'') \<and> \<not> truthy (get_prop values ''last_name'')
         \<and> \<not> truthy (get_prop values ''email'') \<and> \<not> truthy (get_prop values ''affiliation'')
      then Some [(FORM_ERROR, JStr ''No criteria specified'')]
      else None)"

subsection \<open>The wrapper around the user search\<close>

text \<open>
  \<open>_UserSearch\<close> receives \<open>initialFormValues\<close> by reference and deletes a property
  of it, so objects live in a store and the caller's object is an address. An object
  of the store has its own properties and the keys of those that are not
  configurable: none for an ordinary object, all of them once the object is sealed
  or frozen.
\<close>

type_synonym ref = nat

record heap_object =
  properties :: obj
  nonconfigurable :: "string list"

type_synonym store = "ref \<Rightarrow> heap_object"

datatype js_error = TypeError

text \<open>
  \<open>delete object.key\<close> in strict-mode code, which the source is as a module with
  \<open>import\<close> statements: deleting an own property that is not configurable throws a
  \<open>TypeError\<close>; deleting a property the object does not have changes nothing.
\<close>

definition delete_property :: "string \<Rightarrow> heap_object \<Rightarrow> js_error + heap_object" where
  "delete_property k ob =
     (if map_of (properties ob) k \<noteq> None \<and> k \<in> set (nonconfigurable ob)
      then Inl TypeError
      else Inr (ob\<lparr>properties := AList.delete k (properties ob)\<rparr>))"

text \<open>
  What a render of the wrapper leaves behind: the store, and the values of the two
  context providers.
\<close>

record wrapper_render =
  store_after :: store
  WithExternalsContext :: bool
  InitialFormValuesContext :: ref

text \<open>
  \<open>_UserSearch\<close>, for an \<open>initialFormValues\<close> prop that is an object. \<open>Inl\<close> is the
  exception thrown while rendering.
\<close>

definition UserSearch :: "bool \<Rightarrow> ref \<Rightarrow> store \<Rightarrow> js_error + wrapper_render" where
  "UserSearch withExternalUsers initialFormValues h =
     (if \<not> withExternalUsers
      then (case delete_property ''external'' (h initialFormValues) of
              Inl error \<Rightarrow> Inl error
            | Inr ob \<Rightarrow>
                Inr \<lparr>store_after = h(initialFormValues := ob),
                     WithExternalsContext = withExternalUsers,
                     InitialFormValuesContext = initialFormValues\<rparr>)
      else Inr \<lparr>store_after = h,
                WithExternalsContext = withExternalUsers,
                InitialFormValuesContext = initialFormValues\<rparr>)"

text \<open>
  \<open>SearchForm\<close> reads \<open>useContext(InitialFormValuesContext)\<close> and passes it to the
  form as \<open>initialValues\<close>.
\<close>

definition SearchForm_initialValues :: "wrapper_render \<Rightarrow> obj" where
  "SearchForm_initialValues r = properties (store_after r (InitialFormValuesContext r))"

section \<open>Properties\<close>

subsection \<open>Confirming and closing\<close>

text \<open>
  C1 (amended). In multi-select mode, for every non-empty staged list, a click on the
  Confirm button invokes \<open>onAddItems\<close> once, with the current staged array, resets
  the staged list to empty and closes the modal. With nothing staged the button is
  rendered with \<open>disabled\<close> set and the click changes nothing and calls nothing. The
  handler \<open>handleAddButtonClick\<close> itself, whenever it runs, passes on the staged array
  as it is.
\<close>

theorem confirm_returns_staged:
  "(\<not> single p \<and> staged s \<noteq> []
      \<longrightarrow> click_confirm p s = (s\<lparr>staged := [], open := False\<rparr>, [OnAddItems (Many (staged s))]))
   \<and> (\<not> single p \<and> staged s = [] \<longrightarrow> click_confirm p s = (s, []))
   \<and> run_handler p HandleAddButtonClick s
       = (s\<lparr>staged := [], open := False\<rparr>, [OnAddItems (Many (staged s))])"
  by (simp add: click_confirm_def confirm_button_def click_def handleAddButtonClick_def)

theorem confirm_returns_staged_witness:
  "\<not> single \<lparr>disabled = False, existing = [], single = False, triggerFactory = None\<rparr>
   \<and> staged \<lparr>open = True, staged = [\<lparr>identifier = ''User:1'', name = ''Ada'', detail = None,
                                        group = False, userId = Some 1\<rparr>]\<rparr> \<noteq> []
   \<and> click_confirm \<lparr>disabled = False, existing = [], single = False, triggerFactory = None\<rparr>
        \<lparr>open = True, staged = [\<lparr>identifier = ''User:1'', name = ''Ada'', detail = None,
                                  group = False, userId = Some 1\<rparr>]\<rparr>
      = (\<lparr>open = False, staged = []\<rparr>,
         [OnAddItems (Many [\<lparr>identifier = ''User:1'', name = ''Ada'', detail = None,
                             group = False, userId = Some 1\<rparr>])])"
  using confirm_returns_staged
    [of "\<lparr>disabled = False, existing = [], single = False, triggerFactory = None\<rparr>"
        "\<lparr>open = True, staged = [\<lparr>identifier = ''User:1'', name = ''Ada'', detail = None,
                                  group = False, userId = Some 1\<rparr>]\<rparr>"]
  by simp

text \<open>
  The claim as first stated covers the empty staged list as well. There the Confirm
  button is disabled: in an open multi-select dialog with nothing staged, the click
  invokes no callback, and the modal stays open.
\<close>

theorem confirm_click_with_nothing_staged:
  "click_confirm \<lparr>disabled = False, existing = [], single = False, triggerFactory = None\<rparr>
      \<lparr>open = True, staged = []\<rparr>
   = (\<lparr>open = True, staged = []\<rparr>, [])"
  by (simp add: click_confirm_def confirm_button_def click_def)

text \<open>
  C6. Closing or cancelling the dialog (\<open>handleClose\<close>) resets the staged list to
  empty and closes the modal; the only callback it invokes is \<open>onClose\<close>, never
  \<open>onAddItems\<close>, so whatever was staged and not confirmed is discarded.
\<close>

theorem handleClose_discards_staged:
  "staged (fst (handleClose s)) = []
   \<and> \<not> open (fst (handleClose s))
   \<and> snd (handleClose s) = [OnClose]
   \<and> (\<forall>a. OnAddItems a \<notin> set (snd (handleClose s)))"
  by (simp add: handleClose_def)

theorem handleClose_discards_staged_witness:
  "handleClose \<lparr>open = True, staged = [\<lparr>identifier = ''User:1'', name = ''Ada'', detail = None,
                                        group = False, userId = Some 1\<rparr>]\<rparr>
   = (\<lparr>open = False, staged = []\<rparr>, [OnClose])"
  using handleClose_discards_staged
    [of "\<lparr>open = True, staged = [\<lparr>identifier = ''User:1'', name = ''Ada'', detail = None,
                                  group = False, userId = Some 1\<rparr>]\<rparr>"]
  by (simp add: handleClose_def)

subsection \<open>Staging\<close>

text \<open>Every handler keeps the identifiers of the staged list pairwise different.\<close>

lemma run_handler_distinct:
  "distinct (map identifier (staged s))
   \<Longrightarrow> distinct (map identifier (staged (fst (run_handler p h s))))"
  by (cases h)
     (auto simp: handleAdd_def isAdded_def handleAddButtonClick_def handleOpenClick_def
        handleClose_def list_ex_iff)

text \<open>Every handler keeps the staged identifiers apart from \<open>existing\<close>.\<close>

lemma run_handler_fresh:
  "set (map identifier (staged s)) \<inter> set (existing p) = {}
   \<Longrightarrow> set (map identifier (staged (fst (run_handler p h s)))) \<inter> set (existing p) = {}"
  by (cases h)
     (auto simp: handleAdd_def isAdded_def handleAddButtonClick_def handleOpenClick_def
        handleClose_def list_ex_iff)

lemma run_session_distinct:
  "distinct (map identifier (staged s))
   \<Longrightarrow> distinct (map identifier (staged (run_session es s)))"
proof (induction es arbitrary: s)
  case Nil
  then show ?case by simp
next
  case (Cons e es)
  obtain p h where e: "e = (p, h)" by (cases e)
  from Cons.prems have "distinct (map identifier (staged (fst (run_handler p h s))))"
    by (rule run_handler_distinct)
  then show ?case unfolding e by (simp add: Cons.IH)
qed

lemma run_session_fresh:
  "\<forall>e \<in> set es. existing (fst e) = ex
   \<Longrightarrow> set (map identifier (staged s)) \<inter> set ex = {}
   \<Longrightarrow> set (map identifier (staged (run_session es s))) \<inter> set ex = {}"
proof (induction es arbitrary: s)
  case Nil
  then show ?case by simp
next
  case (Cons e es)
  obtain p h where e: "e = (p, h)" by (cases e)
  from Cons.prems have ex: "existing p = ex" by (simp add: e)
  with Cons.prems(2) run_handler_fresh [of s p h]
  have "set (map identifier (staged (fst (run_handler p h s)))) \<inter> set ex = {}"
    by simp
  moreover from Cons.prems(1) have "\<forall>e \<in> set es. existing (fst e) = ex" by simp
  ultimately show ?case unfolding e using Cons.IH by simp
qed

lemma handleAdd_already_added:
  "\<not> single p
   \<Longrightarrow> identifier it \<in> set (existing p) \<or> identifier it \<in> identifier ` set (staged s)
   \<Longrightarrow> handleAdd p it s = (s, [])"
  by (auto simp: handleAdd_def isAdded_def list_ex_iff)

text \<open>
  C2 (amended). In multi-select mode, for every item whose identifier is in
  \<open>existing\<close> or already in the staged list, \<open>handleAdd\<close> leaves the staged list
  unchanged (and calls nothing). Consequently, after any sequence of handler runs from
  the initial state, no two staged entries have the same identifier, whatever props
  each render had; and as long as every render of the session had the same
  \<open>existing\<close> prop, no staged entry has an identifier from it.
\<close>

theorem staged_item_not_added_twice:
  "(\<not> single p
      \<and> (identifier it \<in> set (existing p) \<or> identifier it \<in> identifier ` set (staged s))
      \<longrightarrow> staged (fst (handleAdd p it s)) = staged s \<and> snd (handleAdd p it s) = [])
   \<and> distinct (map identifier (staged (run_session es initial_state)))
   \<and> ((\<forall>e \<in> set es. existing (fst e) = ex)
      \<longrightarrow> set (map identifier (staged (run_session es initial_state))) \<inter> set ex = {})"
proof (intro conjI impI)
  assume "\<not> single p
    \<and> (identifier it \<in> set (existing p) \<or> identifier it \<in> identifier ` set (staged s))"
  then have "handleAdd p it s = (s, [])"
    using handleAdd_already_added by blast
  then show "staged (fst (handleAdd p it s)) = staged s" and "snd (handleAdd p it s) = []"
    by simp_all
next
  show "distinct (map identifier (staged (run_session es initial_state)))"
    by (rule run_session_distinct) (simp add: initial_state_def)
next
  assume "\<forall>e \<in> set es. existing (fst e) = ex"
  then show "set (map identifier (staged (run_session es initial_state))) \<inter> set ex = {}"
    by (rule run_session_fresh) (simp add: initial_state_def)
qed

theorem staged_item_not_added_twice_witness:
  "\<not> single \<lparr>disabled = False, existing = [''User:2''], single = False, triggerFactory = None\<rparr>
   \<and> identifier \<lparr>identifier = ''User:1'', name = ''Ada'', detail = None, group = False,
                   userId = Some 1\<rparr>
       \<in> identifier ` set (staged \<lparr>open = True,
            staged = [\<lparr>identifier = ''User:1'', name = ''Ada'', detail = None, group = False,
                       userId = Some 1\<rparr>]\<rparr>)
   \<and> list_all (\<lambda>e. existing (fst e) = [''User:2''])
         [(\<lparr>disabled = False, existing = [''User:2''], single = False, triggerFactory = None\<rparr>,
           HandleOpenClick),
          (\<lparr>disabled = False, existing = [''User:2''], single = False, triggerFactory = None\<rparr>,
           HandleAdd \<lparr>identifier = ''User:1'', name = ''Ada'', detail = None, group = False,
                       userId = Some 1\<rparr>),
          (\<lparr>disabled = False, existing = [''User:2''], single = False, triggerFactory = None\<rparr>,
           HandleAdd \<lparr>identifier = ''User:1'', name = ''Ada'', detail = None, group = False,
                       userId = Some 1\<rparr>),
          (\<lparr>disabled = False, existing = [''User:2''], single = False, triggerFactory = None\<rparr>,
           HandleAdd \<lparr>identifier = ''User:2'', name = ''Bob'', detail = None, group = False,
                       userId = Some 2\<rparr>)]
   \<and> staged (fst (handleAdd
         \<lparr>disabled = False, existing = [''User:2''], single = False, triggerFactory = None\<rparr>
         \<lparr>identifier = ''User:1'', name = ''Ada'', detail = None, group = False, userId = Some 1\<rparr>
         \<lparr>open = True,
          staged = [\<lparr>identifier = ''User:1'', name = ''Ada'', detail = None, group = False,
                     userId = Some 1\<rparr>]\<rparr>))
       = [\<lparr>identifier = ''User:1'', name = ''Ada'', detail = None, group = False,
            userId = Some 1\<rparr>]
   \<and> staged (run_session
         [(\<lparr>disabled = False, existing = [''User:2''], single = False, triggerFactory = None\<rparr>,
           HandleOpenClick),
          (\<lparr>disabled = False, existing = [''User:2''], single = False, triggerFactory = None\<rparr>,
           HandleAdd \<lparr>identifier = ''User:1'', name = ''Ada'', detail = None, group = False,
                       userId = Some 1\<rparr>),
          (\<lparr>disabled = False, existing = [''User:2''], single = False, triggerFactory = None\<rparr>,
           HandleAdd \<lparr>identifier = ''User:1'', name = ''Ada'', detail = None, group = False,
                       userId = Some 1\<rparr>),
          (\<lparr>disabled = False, existing = [''User:2''], single = False, triggerFactory = None\<rparr>,
           HandleAdd \<lparr>identifier = ''User:2'', name = ''Bob'', detail = None, group = False,
                       userId = Some 2\<rparr>)]
         initial_state)
       = [\<lparr>identifier = ''User:1'', name = ''Ada'', detail = None, group = False,
            userId = Some 1\<rparr>]"
  using staged_item_not_added_twice
    [of "\<lparr>disabled = False, existing = [''User:2''], single = False, triggerFactory = None\<rparr>"
        "\<lparr>identifier = ''User:1'', name = ''Ada'', detail = None, group = False, userId = Some 1\<rparr>"
        "\<lparr>open = True,
          staged = [\<lparr>identifier = ''User:1'', name = ''Ada'', detail = None, group = False,
                     userId = Some 1\<rparr>]\<rparr>"
        "[(\<lparr>disabled = False, existing = [''User:2''], single = False, triggerFactory = None\<rparr>,
           HandleOpenClick),
          (\<lparr>disabled = False, existing = [''User:2''], single = False, triggerFactory = None\<rparr>,
           HandleAdd \<lparr>identifier = ''User:1'', name = ''Ada'', detail = None, group = False,
                       userId = Some 1\<rparr>),
          (\<lparr>disabled = False, existing = [''User:2''], single = False, triggerFactory = None\<rparr>,
           HandleAdd \<lparr>identifier = ''User:1'', name = ''Ada'', detail = None, group = False,
                       userId = Some 1\<rparr>),
          (\<lparr>disabled = False, existing = [''User:2''], single = False, triggerFactory = None\<rparr>,
           HandleAdd \<lparr>identifier = ''User:2'', name = ''Bob'', detail = None, group = False,
                       userId = Some 2\<rparr>)]"
        "[''User:2'']"]
  by (simp add: handleAdd_def isAdded_def initial_state_def handleOpenClick_def)

text \<open>
  The claim as first stated has the staged list never contain an identifier from
  \<open>existing\<close>, whatever the embedding page does. \<open>existing\<close> is read only when an
  item is added: an item staged while \<open>existing\<close> is empty stays staged when a later
  render passes its identifier in \<open>existing\<close>, and confirming hands it to
  \<open>onAddItems\<close>.
\<close>

theorem staged_identifier_later_in_existing:
  "staged (run_session
      [(\<lparr>disabled = False, existing = [], single = False, triggerFactory = None\<rparr>,
        HandleOpenClick),
       (\<lparr>disabled = False, existing = [], single = False, triggerFactory = None\<rparr>,
        HandleAdd \<lparr>identifier = ''User:1'', name = ''Ada'', detail = None, group = False,
                    userId = Some 1\<rparr>),
       (\<lparr>disabled = False, existing = [''User:1''], single = False, triggerFactory = None\<rparr>,
        HandleAdd \<lparr>identifier = ''User:2'', name = ''Bob'', detail = None, group = False,
                    userId = Some 2\<rparr>)]
      initial_state)
     = [\<lparr>identifier = ''User:1'', name = ''Ada'', detail = None, group = False, userId = Some 1\<rparr>,
        \<lparr>identifier = ''User:2'', name = ''Bob'', detail = None, group = False, userId = Some 2\<rparr>]
   \<and> identifier \<lparr>identifier = ''User:1'', name = ''Ada'', detail = None, group = False,
                   userId = Some 1\<rparr>
       \<in> set (existing \<lparr>disabled = False, existing = [''User:1''], single = False,
                         triggerFactory = None\<rparr>)
   \<and> click_confirm
       \<lparr>disabled = False, existing = [''User:1''], single = False, triggerFactory = None\<rparr>
       (run_session
         [(\<lparr>disabled = False, existing = [], single = False, triggerFactory = None\<rparr>,
           HandleOpenClick),
          (\<lparr>disabled = False, existing = [], single = False, triggerFactory = None\<rparr>,
           HandleAdd \<lparr>identifier = ''User:1'', name = ''Ada'', detail = None, group = False,
                       userId = Some 1\<rparr>),
          (\<lparr>disabled = False, existing = [''User:1''], single = False, triggerFactory = None\<rparr>,
           HandleAdd \<lparr>identifier = ''User:2'', name = ''Bob'', detail = None, group = False,
                       userId = Some 2\<rparr>)]
         initial_state)
     = (\<lparr>open = False, staged = []\<rparr>,
        [OnAddItems (Many
          [\<lparr>identifier = ''User:1'', name = ''Ada'', detail = None, group = False,
             userId = Some 1\<rparr>,
           \<lparr>identifier = ''User:2'', name = ''Bob'', detail = None, group = False,
             userId = Some 2\<rparr>])])"
  by (simp add: initial_state_def handleOpenClick_def handleAdd_def isAdded_def
        click_confirm_def confirm_button_def click_def handleAddButtonClick_def)

text \<open>
  C3. In multi-select mode, staging an item with \<open>handleAdd\<close> invokes no callback
  and leaves \<open>open\<close> as it was: only the staged list can change, by the item
  appended at its end. Among all handlers of the component, \<open>onAddItems\<close> is invoked
  exactly by \<open>handleAddButtonClick\<close> (confirming) and, in single mode, by \<open>handleAdd\<close>.
\<close>

theorem staging_stays_local:
  "(\<not> single p \<longrightarrow>
      snd (handleAdd p it s) = []
      \<and> open (fst (handleAdd p it s)) = open s
      \<and> (staged (fst (handleAdd p it s)) = staged s
          \<or> staged (fst (handleAdd p it s)) = staged s @ [it]))
   \<and> ((\<exists>a. OnAddItems a \<in> set (snd (run_handler p h s)))
        \<longleftrightarrow> h = HandleAddButtonClick \<or> (single p \<and> (\<exists>x. h = HandleAdd x)))"
  by (cases h)
     (auto simp: handleAdd_def handleAddButtonClick_def handleOpenClick_def handleClose_def)

theorem staging_stays_local_witness:
  "\<not> single \<lparr>disabled = False, existing = [], single = False, triggerFactory = None\<rparr>
   \<and> handleAdd \<lparr>disabled = False, existing = [], single = False, triggerFactory = None\<rparr>
        \<lparr>identifier = ''User:1'', name = ''Ada'', detail = None, group = False, userId = Some 1\<rparr>
        \<lparr>open = True, staged = []\<rparr>
      = (\<lparr>open = True, staged = [\<lparr>identifier = ''User:1'', name = ''Ada'', detail = None,
                                    group = False, userId = Some 1\<rparr>]\<rparr>, [])"
  using staging_stays_local
    [of "\<lparr>disabled = False, existing = [], single = False, triggerFactory = None\<rparr>"
        "\<lparr>identifier = ''User:1'', name = ''Ada'', detail = None, group = False, userId = Some 1\<rparr>"
        "\<lparr>open = True, staged = []\<rparr>"]
  by (simp add: handleAdd_def isAdded_def)

text \<open>
  C8. In single-selection mode \<open>handleAdd\<close>, for any item and whether or not
  \<open>isAdded\<close> holds of it, invokes \<open>onAddItems\<close> with that one item, closes the modal
  and leaves the staged list as it was.
\<close>

theorem single_mode_add_is_immediate:
  "single p \<longrightarrow>
     handleAdd p it s = (s\<lparr>open := False\<rparr>, [OnAddItems (One it)])
     \<and> staged (fst (handleAdd p it s)) = staged s
     \<and> \<not> open (fst (handleAdd p it s))"
  by (simp add: handleAdd_def)

theorem single_mode_add_is_immediate_witness:
  "single \<lparr>disabled = False, existing = [''User:1''], single = True, triggerFactory = None\<rparr>
   \<and> isAdded \<lparr>disabled = False, existing = [''User:1''], single = True, triggerFactory = None\<rparr>
        \<lparr>open = True, staged = []\<rparr>
        \<lparr>identifier = ''User:1'', name = ''Ada'', detail = None, group = False, userId = Some 1\<rparr>
   \<and> handleAdd \<lparr>disabled = False, existing = [''User:1''], single = True, triggerFactory = None\<rparr>
        \<lparr>identifier = ''User:1'', name = ''Ada'', detail = None, group = False, userId = Some 1\<rparr>
        \<lparr>open = True, staged = []\<rparr>
      = (\<lparr>open = False, staged = []\<rparr>,
         [OnAddItems (One \<lparr>identifier = ''User:1'', name = ''Ada'', detail = None,
                           group = False, userId = Some 1\<rparr>)])"
  using single_mode_add_is_immediate
    [of "\<lparr>disabled = False, existing = [''User:1''], single = True, triggerFactory = None\<rparr>"
        "\<lparr>identifier = ''User:1'', name = ''Ada'', detail = None, group = False, userId = Some 1\<rparr>"
        "\<lparr>open = True, staged = []\<rparr>"]
  by (simp add: isAdded_def)

subsection \<open>Opening\<close>

text \<open>
  C5 (amended). While the \<open>disabled\<close> prop is not set, a click on the trigger (the
  default button, or an enabled element of \<open>triggerFactory\<close> that carries the
  \<open>onClick\<close> it was given) sets \<open>open\<close> to true and invokes \<open>onOpen\<close>. While
  \<open>disabled\<close> is set, \<open>handleOpenClick\<close> returns at once: the click changes nothing
  and \<open>onOpen\<close> is not invoked.
\<close>

theorem trigger_click_opens_when_enabled:
  "(\<not> disabled p \<and> \<not> btn_disabled (trigger p) \<and> btn_onClick (trigger p) = HandleOpenClick
      \<longrightarrow> click_trigger p s = (s\<lparr>open := True\<rparr>, [OnOpen]))
   \<and> (\<not> disabled p \<and> triggerFactory p = None
      \<longrightarrow> click_trigger p s = (s\<lparr>open := True\<rparr>, [OnOpen]))
   \<and> (disabled p \<and> btn_onClick (trigger p) = HandleOpenClick \<longrightarrow> click_trigger p s = (s, []))
   \<and> run_handler p HandleOpenClick s
       = (if disabled p then (s, []) else (s\<lparr>open := True\<rparr>, [OnOpen]))"
  by (simp add: click_trigger_def trigger_def click_def handleOpenClick_def)

theorem trigger_click_opens_when_enabled_witness:
  "\<not> disabled \<lparr>disabled = False, existing = [], single = False, triggerFactory = None\<rparr>
   \<and> triggerFactory \<lparr>disabled = False, existing = [], single = False, triggerFactory = None\<rparr>
       = None
   \<and> click_trigger \<lparr>disabled = False, existing = [], single = False, triggerFactory = None\<rparr>
        \<lparr>open = False, staged = []\<rparr>
      = (\<lparr>open = True, staged = []\<rparr>, [OnOpen])"
  using trigger_click_opens_when_enabled
    [of "\<lparr>disabled = False, existing = [], single = False, triggerFactory = None\<rparr>"
        "\<lparr>open = False, staged = []\<rparr>"]
  by simp

text \<open>
  The claim as first stated speaks of every click. With \<open>disabled\<close> set the modal
  stays closed and \<open>onOpen\<close> is not invoked: on the default button, and on the
  element of a factory that ignores \<open>disabled\<close> and only wires \<open>onClick\<close>.
\<close>

theorem trigger_click_when_disabled:
  "click_trigger \<lparr>disabled = True, existing = [], single = False, triggerFactory = None\<rparr>
      \<lparr>open = False, staged = []\<rparr>
     = (\<lparr>open = False, staged = []\<rparr>, [])
   \<and> click_trigger \<lparr>disabled = True, existing = [], single = False,
          triggerFactory = Some (\<lambda>a. \<lparr>btn_disabled = False, btn_onClick = ta_onClick a\<rparr>)\<rparr>
      \<lparr>open = False, staged = []\<rparr>
     = (\<lparr>open = False, staged = []\<rparr>, [])"
  by (simp add: click_trigger_def trigger_def click_def handleOpenClick_def)

subsection \<open>Search requests\<close>

lemma update_fresh_key: "k \<notin> fst ` set al \<Longrightarrow> AList.update k v al = al @ [(k, v)]"
  by (induction al) auto

lemma foldl_update_distinct:
  "distinct (map fst (acc @ ps))
   \<Longrightarrow> foldl (\<lambda>result pair. AList.update (fst pair) (snd pair) result) acc ps = acc @ ps"
proof (induction ps arbitrary: acc)
  case Nil
  then show ?case by simp
next
  case (Cons q ps)
  from Cons.prems have fresh: "fst q \<notin> fst ` set acc" by auto
  from Cons.prems have "distinct (map fst ((acc @ [q]) @ ps))" by simp
  then have "foldl (\<lambda>result pair. AList.update (fst pair) (snd pair) result) (acc @ [q]) ps
             = (acc @ [q]) @ ps"
    by (rule Cons.IH)
  with fresh show ?case by (simp add: update_fresh_key)
qed

text \<open>On pairs with pairwise different keys \<open>_.fromPairs\<close> keeps every pair, in order.\<close>

lemma fromPairs_distinct: "distinct (map fst ps) \<Longrightarrow> fromPairs ps = ps"
  using foldl_update_distinct [of "[]" ps] by (simp add: fromPairs_def)

lemma group_search_values_filter:
  "distinct (map fst data)
   \<Longrightarrow> group_search_values data = filter (\<lambda>(k, val). truthy val) data"
  by (simp add: group_search_values_def Object_entries_def fromPairs_distinct distinct_map_filter)

lemma user_search_values_filter:
  "distinct (map fst data) \<Longrightarrow>
   user_search_values data =
     AList.update ''favorites_first'' (JBool True) (filter (\<lambda>(k, val). truthy val) data)"
  by (simp add: user_search_values_def Object_entries_def fromPairs_distinct distinct_map_filter)

lemma set_update_distinct:
  "distinct (map fst al) \<Longrightarrow> set (AList.update k v al) = {e \<in> set al. fst e \<noteq> k} \<union> {(k, v)}"
  by (induction al) (auto simp: image_iff)

lemma sent_queries_user:
  "sent_queries (effects (runSearch_user hse get data)) = [(UserSearchURL, user_search_values data)]"
  by (simp add: runSearch_user_def Let_def split: sum.split)

lemma sent_queries_group:
  "sent_queries (effects (runSearch_group hse get data))
   = [(GroupSearchURL, group_search_values data)]"
  by (simp add: runSearch_group_def Let_def split: sum.split)

text \<open>
  C4. For every submitted form-value object (each key once), \<open>runSearch\<close> makes one
  GET request. For the group search its query is the list of exactly those entries
  of the form values whose value is truthy. For the user search it is those entries
  with the key \<open>favorites_first\<close> set to \<open>true\<close>: a truthy entry under that key is
  overwritten, any other truthy entry is kept, no falsy entry is sent.
\<close>

theorem search_query_is_truthy_entries:
  assumes "distinct (map fst data)"
  shows "sent_queries (effects (runSearch_group hse getg data))
        = [(GroupSearchURL, group_search_values data)]
    \<and> group_search_values data = filter (\<lambda>(k, val). truthy val) data
    \<and> set (group_search_values data) = {(k, val). (k, val) \<in> set data \<and> truthy val}
    \<and> sent_queries (effects (runSearch_user hse' getu data))
        = [(UserSearchURL, user_search_values data)]
    \<and> user_search_values data
        = AList.update ''favorites_first'' (JBool True) (filter (\<lambda>(k, val). truthy val) data)
    \<and> set (user_search_values data)
        = {(k, val). (k, val) \<in> set data \<and> truthy val \<and> k \<noteq> ''favorites_first''}
          \<union> {(''favorites_first'', JBool True)}
    \<and> distinct (map fst (user_search_values data))"
proof -
  have g: "group_search_values data = filter (\<lambda>(k, val). truthy val) data"
    using assms by (rule group_search_values_filter)
  have u: "user_search_values data
        = AList.update ''favorites_first'' (JBool True) (filter (\<lambda>(k, val). truthy val) data)"
    using assms by (rule user_search_values_filter)
  have d: "distinct (map fst (filter (\<lambda>(k, val). truthy val) data))"
    using assms by (rule distinct_map_filter)
  have gs: "set (group_search_values data) = {(k, val). (k, val) \<in> set data \<and> truthy val}"
    unfolding g by auto
  have us: "set (user_search_values data)
        = {(k, val). (k, val) \<in> set data \<and> truthy val \<and> k \<noteq> ''favorites_first''}
          \<union> {(''favorites_first'', JBool True)}"
    unfolding u set_update_distinct [OF d] by auto
  have ud: "distinct (map fst (user_search_values data))"
    unfolding u using d by (rule AList.distinct_update)
  show ?thesis
    using sent_queries_group [of hse getg data] g gs sent_queries_user [of hse' getu data] u us ud
    by (intro conjI)
qed

theorem search_query_is_truthy_entries_witness:
  "distinct (map fst [(''first_name'', JStr ''Ada''), (''last_name'', JStr ''''), (''exact'', JBool False)])
   \<and> sent_queries (effects (runSearch_group id Inl
         [(''first_name'', JStr ''Ada''), (''last_name'', JStr ''''), (''exact'', JBool False)]))
       = [(GroupSearchURL, [(''first_name'', JStr ''Ada'')])]
   \<and> sent_queries (effects (runSearch_user id Inl
         [(''first_name'', JStr ''Ada''), (''last_name'', JStr ''''), (''exact'', JBool False)]))
       = [(UserSearchURL, [(''first_name'', JStr ''Ada''), (''favorites_first'', JBool True)])]"
proof -
  let ?d = "[(''first_name'', JStr ''Ada''), (''last_name'', JStr ''''), (''exact'', JBool False)]"
  have d: "distinct (map fst ?d)" by simp
  note t = search_query_is_truthy_entries [OF d, of id Inl id Inl]
  from t have g: "sent_queries (effects (runSearch_group id Inl ?d))
      = [(GroupSearchURL, group_search_values ?d)]"
    by (rule conjunct1)
  from t have gv: "group_search_values ?d = filter (\<lambda>(k, val). truthy val) ?d"
    by (elim conjE)
  from t have u: "sent_queries (effects (runSearch_user id Inl ?d))
      = [(UserSearchURL, user_search_values ?d)]"
    by (elim conjE)
  from t have uv: "user_search_values ?d
        = AList.update ''favorites_first'' (JBool True) (filter (\<lambda>(k, val). truthy val) ?d)"
    by (elim conjE)
  have "sent_queries (effects (runSearch_group id Inl ?d))
      = [(GroupSearchURL, [(''first_name'', JStr ''Ada'')])]"
    unfolding g gv by simp
  moreover have "sent_queries (effects (runSearch_user id Inl ?d))
       = [(UserSearchURL, [(''first_name'', JStr ''Ada''), (''favorites_first'', JBool True)])]"
    unfolding u uv by simp
  ultimately show ?thesis using d by (intro conjI)
qed

text \<open>
  C9. Both \<open>runSearch\<close> functions call \<open>setResult(null)\<close> first and then make the GET
  request. When the request throws, these are the only two effects: the function
  returns the value of \<open>handleSubmitError\<close> on the error, \<open>setResult\<close> is not called
  again, and whatever result was displayed before, the \<open>result\<close> state is \<open>null\<close>
  afterwards, so no results are rendered.
\<close>

theorem failed_search_leaves_result_null:
  "(getu (user_search_values data) = Inl err \<longrightarrow>
      effects (runSearch_user hse getu data)
        = [SetResult None, HttpGet UserSearchURL (user_search_values data)]
      \<and> returned (runSearch_user hse getu data) = Some (hse err)
      \<and> setResult_calls (effects (runSearch_user hse getu data)) = [None]
      \<and> result_after r0 (effects (runSearch_user hse getu data)) = None
      \<and> \<not> shows_results (result_after r0 (effects (runSearch_user hse getu data))))
   \<and> (getg (group_search_values gdata) = Inl err' \<longrightarrow>
      effects (runSearch_group hse' getg gdata)
        = [SetResult None, HttpGet GroupSearchURL (group_search_values gdata)]
      \<and> returned (runSearch_group hse' getg gdata) = Some (hse' err')
      \<and> setResult_calls (effects (runSearch_group hse' getg gdata)) = [None]
      \<and> result_after r0 (effects (runSearch_group hse' getg gdata)) = None
      \<and> \<not> shows_results (result_after r0 (effects (runSearch_group hse' getg gdata))))
   \<and> take 2 (effects (runSearch_user hse getu data))
       = [SetResult None, HttpGet UserSearchURL (user_search_values data)]
   \<and> take 2 (effects (runSearch_group hse' getg gdata))
       = [SetResult None, HttpGet GroupSearchURL (group_search_values gdata)]"
  by (simp add: runSearch_user_def runSearch_group_def Let_def result_after_def shows_results_def
      split: sum.split)

theorem failed_search_leaves_result_null_witness:
  "(\<lambda>q. Inl ''timeout'' :: string + user_data) (user_search_values [(''first_name'', JStr ''Ada'')])
     = Inl ''timeout''
   \<and> returned (runSearch_user (\<lambda>e. ''error: '' @ e) (\<lambda>q. Inl ''timeout'')
        [(''first_name'', JStr ''Ada'')])
     = Some ''error: timeout''
   \<and> result_after (Some \<lparr>total = 0, results = []\<rparr>)
        (effects (runSearch_user (\<lambda>e. ''error: '' @ e) (\<lambda>q. Inl ''timeout'')
           [(''first_name'', JStr ''Ada'')])) = None
   \<and> result_after (Some \<lparr>total = 0, results = []\<rparr>)
        (effects (runSearch_group (\<lambda>e. ''error: '' @ e) (\<lambda>q. Inl ''timeout'')
           [(''name'', JStr ''staff'')])) = None"
  using failed_search_leaves_result_null
    [of "\<lambda>q. Inl ''timeout''" "[(''first_name'', JStr ''Ada'')]" "''timeout''"
        "\<lambda>e. ''error: '' @ e" "Some \<lparr>total = 0, results = []\<rparr>"
        "\<lambda>q. Inl ''timeout''" "[(''name'', JStr ''staff'')]" "''timeout''" "\<lambda>e. ''error: '' @ e"]
  by (simp add: result_after_def)

subsection \<open>Validation\<close>

text \<open>
  C10. \<open>validateForm\<close> of the user search returns the form-level error
  \<open>No criteria specified\<close> if and only if \<open>first_name\<close>, \<open>last_name\<close>, \<open>email\<close> and
  \<open>affiliation\<close> are all falsy (missing or empty); it returns \<open>undefined\<close> if and only
  if at least one of the four is truthy.
\<close>

theorem validateForm_rejects_empty_query:
  "(validateForm FE values = Some [(FE, JStr ''No criteria specified'')]
      \<longleftrightarrow> \<not> truthy (get_prop values ''first_name'') \<and> \<not> truthy (get_prop values ''last_name'')
          \<and> \<not> truthy (get_prop values ''email'') \<and> \<not> truthy (get_prop values ''affiliation''))
   \<and> (validateForm FE values = None
      \<longleftrightarrow> truthy (get_prop values ''first_name'') \<or> truthy (get_prop values ''last_name'')
          \<or> truthy (get_prop values ''email'') \<or> truthy (get_prop values ''affiliation''))"
  by (simp add: validateForm_def)

theorem validateForm_rejects_empty_query_witness:
  "validateForm ''FINAL_FORM/form-error'' [(''first_name'', JStr ''''), (''exact'', JBool True)]
     = Some [(''FINAL_FORM/form-error'', JStr ''No criteria specified'')]
   \<and> validateForm ''FINAL_FORM/form-error'' [(''first_name'', JStr ''''), (''email'', JStr ''a@b.c'')]
     = None"
  using validateForm_rejects_empty_query
    [of "''FINAL_FORM/form-error''" "[(''first_name'', JStr ''''), (''exact'', JBool True)]"]
    validateForm_rejects_empty_query
    [of "''FINAL_FORM/form-error''" "[(''first_name'', JStr ''''), (''email'', JStr ''a@b.c'')]"]
  by (simp add: get_prop_def)

subsection \<open>The wrapper's form defaults\<close>

lemma get_prop_delete: "k \<noteq> k' \<Longrightarrow> get_prop (AList.delete k' al) k = get_prop al k"
  by (simp add: get_prop_def)

lemma get_prop_delete_same: "get_prop (AList.delete k al) k = JUndefined"
  by (simp add: get_prop_def AList.delete_conv')

text \<open>
  C7 (amended). For every \<open>initialFormValues\<close> object: with \<open>withExternalUsers\<close> true
  the wrapper provides that object itself (the same reference) as the form's initial
  values and leaves it as it is. With \<open>withExternalUsers\<close> false and an object whose
  \<open>external\<close> property is missing or configurable (every ordinary object), the
  wrapper deletes \<open>external\<close> from the caller's object and provides that object: the
  initial values are the caller's values without \<open>external\<close>, every other property
  is as the caller set it, and no other object of the store changes. With
  \<open>withExternalUsers\<close> false and an object that owns a non-configurable \<open>external\<close>
  (a sealed or frozen object with that property), the deletion throws a \<open>TypeError\<close>
  and nothing is provided.
\<close>

theorem UserSearch_initial_values:
  "(w \<longrightarrow>
      UserSearch w r h
        = Inr \<lparr>store_after = h, WithExternalsContext = True, InitialFormValuesContext = r\<rparr>
      \<and> SearchForm_initialValues
          \<lparr>store_after = h, WithExternalsContext = True, InitialFormValuesContext = r\<rparr>
        = properties (h r))
   \<and> (\<not> w \<and> (map_of (properties (h r)) ''external'' = None
               \<or> ''external'' \<notin> set (nonconfigurable (h r))) \<longrightarrow>
      (case UserSearch w r h of
         Inl error \<Rightarrow> False
       | Inr ren \<Rightarrow>
           InitialFormValuesContext ren = r
           \<and> WithExternalsContext ren = False
           \<and> SearchForm_initialValues ren = properties (store_after ren r)
           \<and> properties (store_after ren r) = AList.delete ''external'' (properties (h r))
           \<and> nonconfigurable (store_after ren r) = nonconfigurable (h r)
           \<and> (\<forall>r'. r' \<noteq> r \<longrightarrow> store_after ren r' = h r')
           \<and> (\<forall>k. k \<noteq> ''external'' \<longrightarrow>
                 get_prop (SearchForm_initialValues ren) k = get_prop (properties (h r)) k)
           \<and> get_prop (SearchForm_initialValues ren) ''external'' = JUndefined))
   \<and> (\<not> w \<and> map_of (properties (h r)) ''external'' \<noteq> None
           \<and> ''external'' \<in> set (nonconfigurable (h r)) \<longrightarrow>
      UserSearch w r h = Inl TypeError)"
  by (auto simp: SearchForm_initialValues_def UserSearch_def delete_property_def
        get_prop_delete get_prop_delete_same)

theorem UserSearch_initial_values_witness:
  "UserSearch True 0
      ((\<lambda>r. \<lparr>properties = [], nonconfigurable = []\<rparr>)
         (0 := \<lparr>properties = [(''external'', JBool True), (''exact'', JBool True)],
                nonconfigurable = []\<rparr>))
     = Inr \<lparr>store_after =
              (\<lambda>r. \<lparr>properties = [], nonconfigurable = []\<rparr>)
                (0 := \<lparr>properties = [(''external'', JBool True), (''exact'', JBool True)],
                       nonconfigurable = []\<rparr>),
            WithExternalsContext = True, InitialFormValuesContext = 0\<rparr>
   \<and> map_sum id SearchForm_initialValues
       (UserSearch False 0
          ((\<lambda>r. \<lparr>properties = [], nonconfigurable = []\<rparr>)
             (0 := \<lparr>properties = [(''external'', JBool True), (''exact'', JBool True)],
                    nonconfigurable = []\<rparr>)))
     = Inr [(''exact'', JBool True)]
   \<and> UserSearch False 0
       ((\<lambda>r. \<lparr>properties = [], nonconfigurable = []\<rparr>)
          (0 := \<lparr>properties = [(''external'', JBool True), (''exact'', JBool True)],
                 nonconfigurable = [''external'', ''exact'']\<rparr>))
     = Inl TypeError"
  using UserSearch_initial_values
    [of True 0 "(\<lambda>r. \<lparr>properties = [], nonconfigurable = []\<rparr>)
         (0 := \<lparr>properties = [(''external'', JBool True), (''exact'', JBool True)],
                nonconfigurable = []\<rparr>)"]
    UserSearch_initial_values
    [of False 0 "(\<lambda>r. \<lparr>properties = [], nonconfigurable = []\<rparr>)
         (0 := \<lparr>properties = [(''external'', JBool True), (''exact'', JBool True)],
                nonconfigurable = []\<rparr>)"]
    UserSearch_initial_values
    [of False 0 "(\<lambda>r. \<lparr>properties = [], nonconfigurable = []\<rparr>)
         (0 := \<lparr>properties = [(''external'', JBool True), (''exact'', JBool True)],
                nonconfigurable = [''external'', ''exact'']\<rparr>)"]
  by (simp add: UserSearch_def delete_property_def SearchForm_initialValues_def)

text \<open>
  The claim as first stated has the initial values equal to the object as passed and
  the caller's object unmodified. With \<open>withExternalUsers\<close> false and an ordinary
  object carrying a default for \<open>external\<close>, the form gets the values without
  \<open>external\<close>, and the caller's own object has lost the property.
\<close>

theorem UserSearch_deletes_external_from_caller_object:
  "map_sum id SearchForm_initialValues
     (UserSearch False 0
        ((\<lambda>r. \<lparr>properties = [], nonconfigurable = []\<rparr>)
           (0 := \<lparr>properties = [(''external'', JBool True), (''exact'', JBool True)],
                  nonconfigurable = []\<rparr>)))
     = Inr [(''exact'', JBool True)]
   \<and> map_sum id (\<lambda>ren. properties (store_after ren 0))
     (UserSearch False 0
        ((\<lambda>r. \<lparr>properties = [], nonconfigurable = []\<rparr>)
           (0 := \<lparr>properties = [(''external'', JBool True), (''exact'', JBool True)],
                  nonconfigurable = []\<rparr>)))
     = Inr [(''exact'', JBool True)]
   \<and> properties
       (((\<lambda>r. \<lparr>properties = [], nonconfigurable = []\<rparr>)
           (0 := \<lparr>properties = [(''external'', JBool True), (''exact'', JBool True)],
                  nonconfigurable = []\<rparr>)) (0::nat))
     \<noteq> [(''exact'', JBool True)]"
  by (simp add: SearchForm_initialValues_def UserSearch_def delete_property_def)

end
